theory Spec2Isabelle
  imports Complex_Main "HOL-Library.Word"
begin

section \<open>The export driver \<^verbatim>\<open>public/models/download_model.py\<close>\<close>

text \<open>
  The script is one \<^verbatim>\<open>try\<close> block with two handlers. Everything it calls belongs to
  the outside world (the import system, the ultralytics library, the file system,
  standard output), so the model takes the world as an input: a record that says, for
  each call of the script, whether the call returns or which exception it raises. That
  includes \<^verbatim>\<open>print\<close>: a stream that cannot encode a line (the two emoji on an ASCII or
  cp1252 stream, a lone surrogate in an exception text on any stream), a closed stream
  or a broken pipe makes \<^verbatim>\<open>print\<close> raise, inside the \<^verbatim>\<open>try\<close> block and inside the
  handlers alike. Standard output is the list of \<^verbatim>\<open>print\<close> statements that wrote their
  line, in order.

  A run ends normally when the script reaches its end and no exception leaves it. An
  exception that arrives from outside (an interrupt) is taken to arrive inside one of
  the calls.
\<close>

subsection \<open>Exceptions\<close>

text \<open>
  The handlers test \<^verbatim>\<open>isinstance(e, ImportError)\<close> and then
  \<^verbatim>\<open>isinstance(e, Exception)\<close>. In Python's hierarchy
  \<^verbatim>\<open>BaseException > Exception > ImportError > ModuleNotFoundError\<close>, so a raised object
  falls into exactly one of three kinds: an instance of \<^verbatim>\<open>ImportError\<close> (hence of
  \<^verbatim>\<open>Exception\<close>), an instance of \<^verbatim>\<open>Exception\<close> that is no \<^verbatim>\<open>ImportError\<close>, or an
  instance of \<^verbatim>\<open>BaseException\<close> only (\<^verbatim>\<open>KeyboardInterrupt\<close>, \<^verbatim>\<open>SystemExit\<close>,
  \<^verbatim>\<open>GeneratorExit\<close>). \<open>str\<close> is the text \<^verbatim>\<open>str(e)\<close>.
\<close>

datatype exc_kind = ImportError_instance | Exception_instance | BaseException_only

datatype py_exception = PyExc (kind: exc_kind) (str: string)

definition isinstance_ImportError :: "py_exception \<Rightarrow> bool" where
  "isinstance_ImportError e = (kind e = ImportError_instance)"

definition isinstance_Exception :: "py_exception \<Rightarrow> bool" where
  "isinstance_Exception e = (kind e = ImportError_instance \<or> kind e = Exception_instance)"

text \<open>Some exceptions the calls of the script raise in practice.\<close>

definition ModuleNotFoundError :: py_exception where
  "ModuleNotFoundError = PyExc ImportError_instance
     (''No module named '' @ [CHR 0x27] @ ''ultralytics'' @ [CHR 0x27])"

definition KeyboardInterrupt :: py_exception where
  "KeyboardInterrupt = PyExc BaseException_only []"

definition SystemExit :: py_exception where
  "SystemExit = PyExc BaseException_only ''1''"

definition disk_full :: py_exception where
  "disk_full = PyExc Exception_instance ''disk full''"

definition FileNotFoundError :: py_exception where
  "FileNotFoundError = PyExc Exception_instance
     (''[Errno 2] No such file or directory: '' @ [CHR 0x27] @ ''yolov8n-pose.onnx''
        @ [CHR 0x27])"

definition shared_library_missing :: py_exception where
  \<comment> \<open>an \<^verbatim>\<open>OSError\<close> of the dynamic loader while a dependency of the library is imported\<close>
  "shared_library_missing = PyExc Exception_instance
     ''libcudart.so.12: cannot open shared object file: No such file or directory''"

definition UnicodeEncodeError :: "string \<Rightarrow> py_exception" where
  \<comment> \<open>the ASCII codec meets the code point with the given hexadecimal number at position 0\<close>
  "UnicodeEncodeError u = PyExc Exception_instance
     ([CHR 0x27] @ ''ascii'' @ [CHR 0x27] @ '' codec can'' @ [CHR 0x27]
        @ ''t encode character '' @ [CHR 0x27, CHR 0x5C] @ ''u'' @ u @ [CHR 0x27]
        @ '' in position 0: ordinal not in range(128)'')"

subsection \<open>Standard output\<close>

text \<open>One constructor for each \<^verbatim>\<open>print\<close> statement of the script, in source order.\<close>

datatype message =
    Downloading
  | Exporting
  | Success
  | FileSize "64 word"
  | NotFound
  | NotInstalled
  | InstallHint
  | GenericError py_exception

text \<open>
  The texts are byte strings: the two emoji of the source are written as their UTF-8
  encodings, U+2705 and U+274C.
\<close>

definition check_mark :: string where
  "check_mark = [CHR 0xE2, CHR 0x9C, CHR 0x85]"

definition cross_mark :: string where
  "cross_mark = [CHR 0xE2, CHR 0x9D, CHR 0x8C]"

subsection \<open>The world\<close>

text \<open>
  One field for each call of the script that reaches outside:
  \<^verbatim>\<open>from ultralytics import YOLO\<close>, \<^verbatim>\<open>YOLO('yolov8n-pose.pt')\<close>,
  \<^verbatim>\<open>model.export(format='onnx', imgsz=640, simplify=True)\<close>,
  \<^verbatim>\<open>os.path.exists('yolov8n-pose.onnx')\<close>, \<^verbatim>\<open>os.path.getsize('yolov8n-pose.onnx')\<close>
  and \<^verbatim>\<open>print\<close>. \<^verbatim>\<open>import os\<close> cannot fail, and \<^verbatim>\<open>os.path.exists\<close> returns a boolean
  and never raises. \<^verbatim>\<open>os.path.getsize\<close> returns \<^verbatim>\<open>st_size\<close> of the file, a 64-bit
  \<^verbatim>\<open>off_t\<close>, or raises \<^verbatim>\<open>OSError\<close> (the file may have gone since the existence check).
  \<open>print_raises w m\<close> is \<open>None\<close> when the \<^verbatim>\<open>print\<close> statement of the message \<open>m\<close>
  writes its line, and the exception it raises otherwise (for the generic error line
  this covers formatting \<^verbatim>\<open>{e}\<close> as well); no statement is executed twice in a run.
\<close>

record world =
  import_YOLO :: "py_exception + unit"
  YOLO :: "py_exception + unit"
  model_export :: "py_exception + unit"
  path_exists :: bool
  path_getsize :: "py_exception + 64 word"
  print_raises :: "message \<Rightarrow> py_exception option"

definition accepts :: "world \<Rightarrow> message \<Rightarrow> bool" where
  \<comment> \<open>standard output takes the line of this message\<close>
  "accepts w m = (print_raises w m = None)"

subsection \<open>The size in MB: \<^verbatim>\<open>f"{os.path.getsize(...) / (1024*1024):.2f}"\<close>\<close>

text \<open>
  \<^verbatim>\<open>/\<close> on two Python integers is true division: the result is the double nearest to
  the exact quotient, ties to even. The divisor is \<open>2 ^ 20\<close>, so the double is
  \<open>m / 2 ^ 20\<close> where \<open>m\<close> is the byte count rounded to 53 significant bits; below
  \<open>2 ^ 53\<close> nothing is rounded. \<open>truediv_MiB\<close> returns this numerator \<open>m\<close>. The byte
  count is below \<open>2 ^ 64\<close>, so the quotient is far inside the range of a double and
  the \<^verbatim>\<open>OverflowError\<close> of true division cannot arise.
\<close>

fun bit_length :: "nat \<Rightarrow> nat" where
  "bit_length n = (if n = 0 then 0 else Suc (bit_length (n div 2)))"

declare bit_length.simps [simp del]

definition round_half_even :: "nat \<Rightarrow> nat \<Rightarrow> nat" where
  \<comment> \<open>the integer nearest to \<open>t / d\<close>, an exact tie going to the even neighbour\<close>
  "round_half_even t d =
     (let q = t div d; r = t mod d
      in if 2 * r > d \<or> (2 * r = d \<and> odd q) then q + 1 else q)"

definition truediv_MiB :: "nat \<Rightarrow> nat" where
  "truediv_MiB n =
     (if n < 2 ^ 53 then n
      else let s = bit_length n - 53 in round_half_even n (2 ^ s) * 2 ^ s)"

text \<open>
  The format \<^verbatim>\<open>.2f\<close> prints the multiple of \<open>1/100\<close> nearest to the exact value of
  the double, ties to even: the integer part in decimal, a point and two digits.
  \<open>hundredths m\<close> is the numerator of that multiple for the double \<open>m / 2 ^ 20\<close>.
\<close>

definition hundredths :: "nat \<Rightarrow> nat" where
  "hundredths m = round_half_even (m * 100) (1024 * 1024)"

definition digit :: "nat \<Rightarrow> char" where
  "digit d = char_of (48 + d)"

fun dec :: "nat \<Rightarrow> string" where
  "dec n = (if n < 10 then [digit n] else dec (n div 10) @ [digit (n mod 10)])"

declare dec.simps [simp del]

definition format_2f :: "nat \<Rightarrow> string" where
  "format_2f m =
     (let h = hundredths m
      in dec (h div 100) @ ''.'' @ [digit (h mod 100 div 10), digit (h mod 10)])"

fun render :: "message \<Rightarrow> string" where
  "render Downloading = ''Downloading YOLOv8n-Pose model...''"
| "render Exporting = ''Exporting to ONNX format...''"
| "render Success = check_mark @ '' Success! Model exported to: yolov8n-pose.onnx''"
| "render (FileSize n) =
     ''   File size: '' @ format_2f (truediv_MiB (unat n)) @ '' MB''"
| "render NotFound = cross_mark @ '' Error: Model file not found after export''"
| "render NotInstalled = cross_mark @ '' Error: ultralytics package not installed''"
| "render InstallHint = ''   Install it with: pip install ultralytics''"
| "render (GenericError e) = cross_mark @ '' Error: '' @ str e"

subsection \<open>The script\<close>

text \<open>
  A run is the list of lines written so far and the exception in flight, if there is
  one. \<open>print\<close> writes its line or raises; \<open>and_then\<close> goes on with the next statement
  unless an exception is in flight.
\<close>

type_synonym run = "message list \<times> py_exception option"

definition print :: "world \<Rightarrow> message \<Rightarrow> message list \<Rightarrow> run" where
  "print w m out =
     (case print_raises w m of None \<Rightarrow> (out @ [m], None) | Some e \<Rightarrow> (out, Some e))"

definition and_then :: "run \<Rightarrow> (message list \<Rightarrow> run) \<Rightarrow> run" where
  "and_then r f = (case r of (out, None) \<Rightarrow> f out | (out, Some e) \<Rightarrow> (out, Some e))"

text \<open>
  The body of the \<^verbatim>\<open>try\<close> block. The size line is printed by one statement whose
  argument calls \<^verbatim>\<open>os.path.getsize\<close> first.
\<close>

definition try_body :: "world \<Rightarrow> run" where
  "try_body w =
     (case import_YOLO w of
        Inl e \<Rightarrow> ([], Some e)
      | Inr _ \<Rightarrow>
     and_then (print w Downloading []) (\<lambda>out.
     case YOLO w of
        Inl e \<Rightarrow> (out, Some e)
      | Inr _ \<Rightarrow>
     and_then (print w Exporting out) (\<lambda>out.
     case model_export w of
        Inl e \<Rightarrow> (out, Some e)
      | Inr _ \<Rightarrow>
        if path_exists w then
          and_then (print w Success out) (\<lambda>out.
          case path_getsize w of
             Inl e \<Rightarrow> (out, Some e)
           | Inr n \<Rightarrow> print w (FileSize n) out)
        else print w NotFound out)))"

text \<open>
  The whole script: the \<^verbatim>\<open>except ImportError\<close> clause is tried first, then
  \<^verbatim>\<open>except Exception as e\<close>; an exception that matches neither leaves the script, and
  so does an exception raised by a \<^verbatim>\<open>print\<close> inside a handler.
\<close>

definition download_model :: "world \<Rightarrow> run" where
  "download_model w =
     (case try_body w of
        (out, None) \<Rightarrow> (out, None)
      | (out, Some e) \<Rightarrow>
          if isinstance_ImportError e then
            and_then (print w NotInstalled out) (\<lambda>out. print w InstallHint out)
          else if isinstance_Exception e then print w (GenericError e) out
          else (out, Some e))"

definition printed :: "run \<Rightarrow> message list" where
  "printed r = fst r"

definition stdout :: "run \<Rightarrow> string list" where
  "stdout r = map render (printed r)"

definition uncaught :: "run \<Rightarrow> py_exception option" where
  \<comment> \<open>the exception that leaves the script; \<open>None\<close> when the run ends normally\<close>
  "uncaught r = snd r"

definition raised :: "world \<Rightarrow> py_exception option" where
  \<comment> \<open>the exception that ends the \<^verbatim>\<open>try\<close> block, if one does\<close>
  "raised w = snd (try_body w)"


subsection \<open>The four terminal outcomes\<close>

text \<open>
  What a run reports at its end: the success line with the size line, the not-found
  line, the pair of lines about the missing package, or the generic error line.
  \<open>outcome_of\<close> says to which outcome a line belongs (the two progress lines belong to
  none), \<open>reported\<close> lists the outcomes of which a run has printed a line, and an
  outcome is \<open>complete\<close> when all its lines are there.
\<close>

datatype outcome = Succeeded | FileMissing | DependencyMissing | Failed

fun outcome_of :: "message \<Rightarrow> outcome option" where
  "outcome_of Downloading = None"
| "outcome_of Exporting = None"
| "outcome_of Success = Some Succeeded"
| "outcome_of (FileSize n) = Some Succeeded"
| "outcome_of NotFound = Some FileMissing"
| "outcome_of NotInstalled = Some DependencyMissing"
| "outcome_of InstallHint = Some DependencyMissing"
| "outcome_of (GenericError e) = Some Failed"

definition reported :: "message list \<Rightarrow> outcome list" where
  "reported ms = remdups (List.map_filter outcome_of ms)"

fun is_FileSize :: "message \<Rightarrow> bool" where
  "is_FileSize (FileSize n) = True"
| "is_FileSize _ = False"

fun is_GenericError :: "message \<Rightarrow> bool" where
  "is_GenericError (GenericError e) = True"
| "is_GenericError _ = False"

fun complete :: "message list \<Rightarrow> outcome \<Rightarrow> bool" where
  "complete ms Succeeded = (Success \<in> set ms \<and> list_ex is_FileSize ms)"
| "complete ms FileMissing = (NotFound \<in> set ms)"
| "complete ms DependencyMissing = (NotInstalled \<in> set ms \<and> InstallHint \<in> set ms)"
| "complete ms Failed = list_ex is_GenericError ms"


subsection \<open>Reading a printed number\<close>





definition is_digit :: "char \<Rightarrow> bool" where
  "is_digit c = (48 \<le> (of_char c :: nat) \<and> (of_char c :: nat) \<le> 57)"

subsection \<open>Worlds of the end-to-end scenarios\<close>

text \<open>
  Scenario A of the specification: the library is there, every call returns, the
  exported file has 6,291,456 bytes, and standard output takes every line (a UTF-8
  terminal). The other worlds change one call of it.
\<close>

definition scenario_A :: world where
  "scenario_A =
     \<lparr>import_YOLO = Inr (), YOLO = Inr (), model_export = Inr (),
      path_exists = True, path_getsize = Inr 6291456, print_raises = (\<lambda>m. None)\<rparr>"

definition scenario_B :: world where
  "scenario_B = scenario_A\<lparr>import_YOLO := Inl ModuleNotFoundError\<rparr>"

definition scenario_C :: world where
  "scenario_C = scenario_A\<lparr>model_export := Inl disk_full\<rparr>"

definition file_absent :: world where
  "file_absent = scenario_A\<lparr>path_exists := False, path_getsize := Inl FileNotFoundError\<rparr>"


definition vanished_file :: world where
  "vanished_file = scenario_A\<lparr>path_getsize := Inl FileNotFoundError\<rparr>"


definition import_crash :: world where
  "import_crash = scenario_A\<lparr>import_YOLO := Inl shared_library_missing\<rparr>"

definition interrupted_import :: world where
  "interrupted_import = scenario_A\<lparr>import_YOLO := Inl KeyboardInterrupt\<rparr>"

definition interrupted_download :: world where
  "interrupted_download = scenario_A\<lparr>YOLO := Inl KeyboardInterrupt\<rparr>"



text \<open>
  A standard output with the ASCII encoding (\<^verbatim>\<open>PYTHONIOENCODING=ascii\<close>, or the C locale
  of an older interpreter): the four lines that begin with an emoji cannot be encoded,
  the other four consist of ASCII characters.
\<close>

fun ascii_stdout :: "message \<Rightarrow> py_exception option" where
  "ascii_stdout Downloading = None"
| "ascii_stdout Exporting = None"
| "ascii_stdout Success = Some (UnicodeEncodeError ''2705'')"
| "ascii_stdout (FileSize n) = None"
| "ascii_stdout NotFound = Some (UnicodeEncodeError ''274c'')"
| "ascii_stdout NotInstalled = Some (UnicodeEncodeError ''274c'')"
| "ascii_stdout InstallHint = None"
| "ascii_stdout (GenericError e) = Some (UnicodeEncodeError ''274c'')"

definition is_ascii :: "string \<Rightarrow> bool" where
  "is_ascii s = list_all (\<lambda>c. (of_char c :: nat) < 128) s"


definition scenario_B_ascii :: world where
  "scenario_B_ascii = scenario_B\<lparr>print_raises := ascii_stdout\<rparr>"

definition scenario_C_ascii :: world where
  "scenario_C_ascii = scenario_C\<lparr>print_raises := ascii_stdout\<rparr>"

definition file_absent_ascii :: world where
  "file_absent_ascii = file_absent\<lparr>print_raises := ascii_stdout\<rparr>"

section \<open>The printed size\<close>



text \<open>
  The decimal text of a number consists of digits and reads back as the number, so the
  text of \<open>format_2f\<close> has the integer part before the point, two digits after it, and
  denotes \<open>hundredths m / 100\<close>.
\<close>

lemma of_char_digit: "d < 10 \<Longrightarrow> (of_char (digit d) :: nat) = 48 + d"
  by (simp add: digit_def)

lemma is_digit_digit: "d < 10 \<Longrightarrow> is_digit (digit d)"
  by (simp add: is_digit_def of_char_digit)


lemma dec_digits: "\<forall>c \<in> set (dec n). is_digit c"
proof (induction n rule: dec.induct)
  case (1 n)
  show ?case
  proof (cases "n < 10")
    case True
    then show ?thesis by (subst dec.simps) (simp add: is_digit_digit)
  next
    case False
    with 1 show ?thesis by (subst dec.simps) (simp add: is_digit_digit)
  qed
qed












section \<open>Running the script\<close>

lemma print_accepted: "accepts w m \<Longrightarrow> print w m out = (out @ [m], None)"
  by (simp add: print_def accepts_def)

lemma print_refused: "print_raises w m = Some e \<Longrightarrow> print w m out = (out, Some e)"
  by (simp add: print_def)

lemma and_then_simps:
  "and_then (out, None) f = f out"
  "and_then (out, Some e) f = (out, Some e)"
  by (simp_all add: and_then_def)

lemmas run_defs =
  download_model_def try_body_def print_def and_then_def printed_def stdout_def
  uncaught_def raised_def accepts_def isinstance_ImportError_def isinstance_Exception_def

lemmas exception_defs =
  ModuleNotFoundError_def KeyboardInterrupt_def SystemExit_def disk_full_def
  FileNotFoundError_def shared_library_missing_def UnicodeEncodeError_def

text \<open>
  The lines of the \<^verbatim>\<open>try\<close> block: when the block ends with an exception, the progress
  lines printed so far and possibly the success line; when it ends without one, the
  not-found line or the success line with the size line.
\<close>

lemma try_body_shape:
  "(case try_body w of
      (out, Some e) \<Rightarrow>
        out \<in> {[], [Downloading], [Downloading, Exporting], [Downloading, Exporting, Success]}
    | (out, None) \<Rightarrow>
        out = [Downloading, Exporting, NotFound]
        \<or> (\<exists>n. out = [Downloading, Exporting, Success, FileSize n]))"
  by (simp add: try_body_def print_def and_then_def split: sum.splits option.splits)

lemma try_body_raised:
  assumes "raised w = Some e"
  obtains out where "try_body w = (out, Some e)"
    and "out \<in> {[], [Downloading], [Downloading, Exporting], [Downloading, Exporting, Success]}"
proof -
  obtain out where out: "try_body w = (out, Some e)"
    using assms by (cases "try_body w") (simp add: raised_def)
  with try_body_shape [of w] that show thesis by simp
qed


lemma try_body_exported:
  assumes "import_YOLO w = Inr ()" and "accepts w Downloading" and "YOLO w = Inr ()"
    and "accepts w Exporting" and "model_export w = Inr ()"
  shows "try_body w =
    (if path_exists w then
       and_then (print w Success [Downloading, Exporting]) (\<lambda>out.
         case path_getsize w of
           Inl e \<Rightarrow> (out, Some e)
         | Inr n \<Rightarrow> print w (FileSize n) out)
     else print w NotFound [Downloading, Exporting])"
  using assms by (simp add: try_body_def print_accepted and_then_simps)

lemma handled_by_kind:
  assumes "try_body w = (out, Some e)"
  shows "download_model w =
    (if isinstance_ImportError e then
       and_then (print w NotInstalled out) (\<lambda>out. print w InstallHint out)
     else if isinstance_Exception e then print w (GenericError e) out
     else (out, Some e))"
  using assms by (simp add: download_model_def)


lemma ImportError_is_Exception: "isinstance_ImportError e \<Longrightarrow> isinstance_Exception e"
  by (simp add: isinstance_ImportError_def isinstance_Exception_def)

text \<open>The ASCII stream refuses exactly the lines that are not ASCII text.\<close>

lemma is_ascii_digit: "is_digit c \<Longrightarrow> (of_char c :: nat) < 128"
  by (simp add: is_digit_def)

lemma is_ascii_format_2f: "is_ascii (format_2f m)"
proof -
  have "hundredths m mod 100 div 10 < 10" and "hundredths m mod 10 < 10" by simp_all
  then have "is_digit (digit (hundredths m mod 100 div 10))"
    and "is_digit (digit (hundredths m mod 10))"
    by (simp_all only: is_digit_digit)
  then show ?thesis
    using dec_digits [of "hundredths m div 100"]
    by (simp add: is_ascii_def format_2f_def Let_def list_all_iff is_ascii_digit)
qed

lemma ascii_stdout_refuses: "(ascii_stdout m = None) = is_ascii (render m)"
proof (cases m)
  case (FileSize n)
  have "is_ascii (format_2f (truediv_MiB (unat n)))" by (rule is_ascii_format_2f)
  then show ?thesis by (simp add: FileSize is_ascii_def)
qed (simp_all add: is_ascii_def check_mark_def cross_mark_def)

section \<open>Reported outcomes\<close>

text \<open>
  C4, as amended. If the export call returns without raising, \<^verbatim>\<open>yolov8n-pose.onnx\<close>
  does not exist and standard output accepts the not-found line, the driver prints the
  not-found message and no exception leaves it.
\<close>

theorem not_found_after_export:
  assumes "import_YOLO w = Inr ()" and "accepts w Downloading" and "YOLO w = Inr ()"
    and "accepts w Exporting" and "model_export w = Inr ()"
    and "\<not> path_exists w" and "accepts w NotFound"
  shows "printed (download_model w) = [Downloading, Exporting, NotFound]
    \<and> last (stdout (download_model w)) = cross_mark @ '' Error: Model file not found after export''
    \<and> uncaught (download_model w) = None"
proof -
  from assms have "try_body w = ([Downloading, Exporting, NotFound], None)"
    by (simp add: try_body_exported print_accepted)
  then show ?thesis
    by (simp add: download_model_def printed_def stdout_def uncaught_def)
qed

theorem not_found_after_export_witness:
  "import_YOLO file_absent = Inr () \<and> accepts file_absent Downloading
    \<and> YOLO file_absent = Inr () \<and> accepts file_absent Exporting
    \<and> model_export file_absent = Inr () \<and> \<not> path_exists file_absent
    \<and> accepts file_absent NotFound
    \<and> printed (download_model file_absent) = [Downloading, Exporting, NotFound]
    \<and> uncaught (download_model file_absent) = None"
  using not_found_after_export [of file_absent]
  by (simp add: file_absent_def scenario_A_def accepts_def)

text \<open>
  The claim as written has no condition on standard output. On a stream with the ASCII
  encoding the \<^verbatim>\<open>print\<close> of the not-found line raises \<^verbatim>\<open>UnicodeEncodeError\<close> inside the
  \<^verbatim>\<open>try\<close> block; \<^verbatim>\<open>except Exception\<close> catches it, the \<^verbatim>\<open>print\<close> of the generic error
  line raises again, and that exception leaves the driver with no message printed.
\<close>

theorem not_found_line_refused:
  "import_YOLO file_absent_ascii = Inr () \<and> YOLO file_absent_ascii = Inr ()
    \<and> model_export file_absent_ascii = Inr () \<and> \<not> path_exists file_absent_ascii
    \<and> printed (download_model file_absent_ascii) = [Downloading, Exporting]
    \<and> uncaught (download_model file_absent_ascii) = Some (UnicodeEncodeError ''274c'')"
  by (simp add: file_absent_ascii_def file_absent_def scenario_A_def run_defs exception_defs)





section \<open>The missing package\<close>

text \<open>
  C3, as amended. If \<^verbatim>\<open>from ultralytics import YOLO\<close> raises an \<^verbatim>\<open>ImportError\<close> and
  standard output accepts the two lines, the driver prints the line about the missing
  package followed by the line with the install command, and no exception leaves it.
\<close>

theorem import_failure_reported:
  assumes "import_YOLO w = Inl e" and "isinstance_ImportError e"
    and "accepts w NotInstalled" and "accepts w InstallHint"
  shows "stdout (download_model w) =
    [cross_mark @ '' Error: ultralytics package not installed'',
     ''   Install it with: pip install ultralytics'']
    \<and> uncaught (download_model w) = None"
proof -
  from assms(1) have "try_body w = ([], Some e)" by (simp add: try_body_def)
  with assms(2-) have "download_model w = ([NotInstalled, InstallHint], None)"
    by (simp add: handled_by_kind print_accepted and_then_simps)
  then show ?thesis by (simp add: stdout_def printed_def uncaught_def)
qed

theorem import_failure_reported_witness:
  "import_YOLO scenario_B = Inl ModuleNotFoundError
    \<and> isinstance_ImportError ModuleNotFoundError
    \<and> accepts scenario_B NotInstalled \<and> accepts scenario_B InstallHint
    \<and> stdout (download_model scenario_B) =
        [cross_mark @ '' Error: ultralytics package not installed'',
         ''   Install it with: pip install ultralytics'']
    \<and> uncaught (download_model scenario_B) = None"
  using import_failure_reported [of scenario_B ModuleNotFoundError]
  by (simp add: scenario_B_def scenario_A_def ModuleNotFoundError_def
      isinstance_ImportError_def accepts_def)

text \<open>
  The claim as written speaks of any failure to load the library and has no condition
  on standard output. When the import fails with an exception that is no
  \<^verbatim>\<open>ImportError\<close> (here the \<^verbatim>\<open>OSError\<close> of the dynamic loader), the second handler runs
  and the generic error line is printed in place of the two lines. When the import
  raises \<^verbatim>\<open>ModuleNotFoundError\<close> on a stream with the ASCII encoding, the \<^verbatim>\<open>print\<close> of
  the first line raises inside the handler: nothing is printed and the
  \<^verbatim>\<open>UnicodeEncodeError\<close> leaves the driver.
\<close>

theorem import_failure_not_reported:
  "import_YOLO import_crash = Inl shared_library_missing
    \<and> printed (download_model import_crash) = [GenericError shared_library_missing]
    \<and> import_YOLO scenario_B_ascii = Inl ModuleNotFoundError
    \<and> printed (download_model scenario_B_ascii) = []
    \<and> uncaught (download_model scenario_B_ascii) = Some (UnicodeEncodeError ''274c'')"
  by (simp add: import_crash_def scenario_B_ascii_def scenario_B_def scenario_A_def
      run_defs exception_defs)

text \<open>
  C7, as amended. If the library is absent, so that its import raises an
  \<^verbatim>\<open>ImportError\<close>, and standard output accepts the two lines about the missing package,
  the printed output is exactly those two lines: neither the starting nor the exporting
  message comes before them, and the process ends normally.
\<close>

theorem scenario_B_exact_output:
  assumes "import_YOLO w = Inl e" and "isinstance_ImportError e"
    and "accepts w NotInstalled" and "accepts w InstallHint"
  shows "printed (download_model w) = [NotInstalled, InstallHint]
    \<and> Downloading \<notin> set (printed (download_model w))
    \<and> Exporting \<notin> set (printed (download_model w))
    \<and> length (stdout (download_model w)) = 2
    \<and> uncaught (download_model w) = None"
proof -
  from assms have "download_model w = ([NotInstalled, InstallHint], None)"
    by (simp add: download_model_def try_body_def print_accepted and_then_simps)
  then show ?thesis by (simp add: printed_def stdout_def uncaught_def)
qed

theorem scenario_B_exact_output_witness:
  "import_YOLO scenario_B = Inl ModuleNotFoundError
    \<and> isinstance_ImportError ModuleNotFoundError
    \<and> accepts scenario_B NotInstalled \<and> accepts scenario_B InstallHint
    \<and> printed (download_model scenario_B) = [NotInstalled, InstallHint]
    \<and> uncaught (download_model scenario_B) = None"
  using scenario_B_exact_output [of scenario_B ModuleNotFoundError]
  by (simp add: scenario_B_def scenario_A_def ModuleNotFoundError_def
      isinstance_ImportError_def accepts_def)

text \<open>
  The claim as written has no condition on standard output. With the library absent
  and a stream with the ASCII encoding, the first line of the pair cannot be encoded:
  the printed output is empty and the process ends with an uncaught
  \<^verbatim>\<open>UnicodeEncodeError\<close>.
\<close>

theorem scenario_B_on_ascii_stdout:
  "import_YOLO scenario_B_ascii = Inl ModuleNotFoundError
    \<and> isinstance_ImportError ModuleNotFoundError
    \<and> stdout (download_model scenario_B_ascii) = []
    \<and> uncaught (download_model scenario_B_ascii) \<noteq> None"
  by (simp add: scenario_B_ascii_def scenario_B_def scenario_A_def run_defs exception_defs)



section \<open>Classification of exceptions\<close>

text \<open>
  C1, as amended. For every exception that is an instance of \<^verbatim>\<open>Exception\<close> but not of
  \<^verbatim>\<open>ImportError\<close> and is raised by the model load, the export or the verify step, if
  standard output accepts the generic error line for it, the driver prints that line,
  with the text of the exception, as its last line, and no exception leaves the driver.
\<close>

theorem generic_error_reported:
  assumes "import_YOLO w = Inr ()" and "raised w = Some e"
    and "isinstance_Exception e" and "\<not> isinstance_ImportError e"
    and "accepts w (GenericError e)"
  shows "last (printed (download_model w)) = GenericError e
    \<and> last (stdout (download_model w)) = cross_mark @ '' Error: '' @ str e
    \<and> NotInstalled \<notin> set (printed (download_model w))
    \<and> uncaught (download_model w) = None"
proof -
  from assms(2) obtain out where out: "try_body w = (out, Some e)"
    and plain: "out \<in> {[], [Downloading], [Downloading, Exporting],
        [Downloading, Exporting, Success]}"
    by (rule try_body_raised)
  from out assms(3-) have "download_model w = (out @ [GenericError e], None)"
    by (simp add: handled_by_kind print_accepted)
  with plain show ?thesis
    by (auto simp: printed_def stdout_def uncaught_def)
qed

theorem generic_error_reported_witness:
  "import_YOLO scenario_C = Inr () \<and> raised scenario_C = Some disk_full
    \<and> model_export scenario_C = Inl disk_full
    \<and> isinstance_Exception disk_full \<and> \<not> isinstance_ImportError disk_full
    \<and> accepts scenario_C (GenericError disk_full)
    \<and> last (stdout (download_model scenario_C)) = cross_mark @ '' Error: disk full''
    \<and> uncaught (download_model scenario_C) = None"
proof -
  have world: "import_YOLO scenario_C = Inr ()" "model_export scenario_C = Inl disk_full"
    "accepts scenario_C (GenericError disk_full)"
    by (simp_all add: scenario_C_def scenario_A_def accepts_def)
  have r: "raised scenario_C = Some disk_full"
    by (simp add: scenario_C_def scenario_A_def raised_def try_body_def print_def
        and_then_def)
  have kind: "isinstance_Exception disk_full" "\<not> isinstance_ImportError disk_full"
    by (simp_all add: disk_full_def isinstance_Exception_def isinstance_ImportError_def)
  have "str disk_full = ''disk full''" by (simp add: disk_full_def)
  then show ?thesis
    using generic_error_reported [of scenario_C disk_full] world r kind by simp
qed

text \<open>
  The claim as written speaks of every exception other than an import failure and has
  no condition on standard output. A \<^verbatim>\<open>KeyboardInterrupt\<close> during the download of the
  checkpoint is not an \<^verbatim>\<open>ImportError\<close>, yet \<^verbatim>\<open>except Exception\<close> does not match it: no
  error line is printed and the exception leaves the driver. And when the export raises
  \<^verbatim>\<open>Exception('disk full')\<close> on a stream with the ASCII encoding, the \<^verbatim>\<open>print\<close> of the
  generic error line raises inside the handler: the line is not printed and a
  \<^verbatim>\<open>UnicodeEncodeError\<close> leaves the driver.
\<close>

theorem interrupt_not_reported:
  "YOLO interrupted_download = Inl KeyboardInterrupt
    \<and> \<not> isinstance_ImportError KeyboardInterrupt
    \<and> printed (download_model interrupted_download) = [Downloading]
    \<and> uncaught (download_model interrupted_download) = Some KeyboardInterrupt
    \<and> model_export scenario_C_ascii = Inl disk_full
    \<and> isinstance_Exception disk_full \<and> \<not> isinstance_ImportError disk_full
    \<and> printed (download_model scenario_C_ascii) = [Downloading, Exporting]
    \<and> uncaught (download_model scenario_C_ascii) = Some (UnicodeEncodeError ''274c'')"
  by (simp add: interrupted_download_def scenario_C_ascii_def scenario_C_def scenario_A_def
      run_defs exception_defs)




section \<open>Termination\<close>




section \<open>One outcome for each run\<close>

text \<open>
  C10, as amended. On every run that no exception leaves and on which the size line
  follows the success line if that was printed, exactly one of the four terminal
  outcomes is printed (the success line with the size line, the not-found line, the
  pair of lines about the missing package, or the generic error line): lines of one
  outcome only are printed, all lines of that outcome are, and no line is printed
  twice.
\<close>

theorem one_outcome:
  assumes "uncaught (download_model w) = None"
    and "Success \<in> set (printed (download_model w))
      \<longrightarrow> list_ex is_FileSize (printed (download_model w))"
  shows "length (reported (printed (download_model w))) = 1
    \<and> list_all (complete (printed (download_model w))) (reported (printed (download_model w)))
    \<and> distinct (printed (download_model w))"
proof (cases "try_body w")
  case (Pair out r)
  show ?thesis
  proof (cases r)
    case None
    with Pair try_body_shape [of w] have
      "out = [Downloading, Exporting, NotFound]
        \<or> (\<exists>n. out = [Downloading, Exporting, Success, FileSize n])"
      by simp
    moreover from Pair None have "download_model w = (out, None)"
      by (simp add: download_model_def)
    ultimately show ?thesis
      by (auto simp: printed_def reported_def List.map_filter_simps)
  next
    case (Some e)
    with Pair try_body_shape [of w] have out:
      "out \<in> {[], [Downloading], [Downloading, Exporting], [Downloading, Exporting, Success]}"
      by simp
    have run: "download_model w =
        (if isinstance_ImportError e then
           and_then (print w NotInstalled out) (\<lambda>out. print w InstallHint out)
         else if isinstance_Exception e then print w (GenericError e) out
         else (out, Some e))"
      using Pair Some by (simp add: handled_by_kind)
    show ?thesis
      using out assms unfolding run
      by (auto simp: printed_def uncaught_def reported_def List.map_filter_simps
          print_def and_then_def split: option.splits if_splits)
  qed
qed

theorem one_outcome_witness:
  "uncaught (download_model scenario_C) = None
    \<and> Success \<notin> set (printed (download_model scenario_C))
    \<and> reported (printed (download_model scenario_C)) = [Failed]
    \<and> complete (printed (download_model scenario_C)) Failed
    \<and> uncaught (download_model scenario_A) = None
    \<and> Success \<in> set (printed (download_model scenario_A))
    \<and> list_ex is_FileSize (printed (download_model scenario_A))
    \<and> reported (printed (download_model scenario_A)) = [Succeeded]"
proof -
  have run: "download_model scenario_C = ([Downloading, Exporting, GenericError disk_full], None)"
    by (simp add: scenario_C_def scenario_A_def run_defs exception_defs)
  have run': "download_model scenario_A =
      ([Downloading, Exporting, Success, FileSize 6291456], None)"
    by (simp add: scenario_A_def run_defs)
  show ?thesis
    using one_outcome [of scenario_C] one_outcome [of scenario_A]
    by (simp add: run run' uncaught_def printed_def reported_def List.map_filter_simps)
qed

text \<open>
  The claim as written speaks of every run. When the import of the library is
  interrupted, nothing at all is printed and the \<^verbatim>\<open>KeyboardInterrupt\<close> leaves the
  script: none of the four outcomes is reported. When the exported file vanishes
  between the existence check and the size query, the success line is printed and then
  the generic error line: two outcomes are reported, and the run ends normally.
\<close>

theorem interrupted_run_has_no_outcome:
  "printed (download_model interrupted_import) = []
    \<and> reported (printed (download_model interrupted_import)) = []
    \<and> uncaught (download_model interrupted_import) = Some KeyboardInterrupt
    \<and> path_exists vanished_file \<and> path_getsize vanished_file = Inl FileNotFoundError
    \<and> printed (download_model vanished_file) =
        [Downloading, Exporting, Success, GenericError FileNotFoundError]
    \<and> reported (printed (download_model vanished_file)) = [Succeeded, Failed]
    \<and> uncaught (download_model vanished_file) = None"
  by (simp add: interrupted_import_def vanished_file_def scenario_A_def
      run_defs exception_defs reported_def List.map_filter_simps)

end
